theory Spec2Isabelle
  imports Main
begin

section \<open>String primitives of the Python runtime\<close>

text \<open>
  The configuration script \<^verbatim>\<open>.ycm_extra_conf.py\<close> is Python 2 (it uses a
  \<^verbatim>\<open>ur'...'\<close> literal), so a \<^verbatim>\<open>str\<close> is a byte string: a \<^typ>\<open>string\<close>.
  The script tests for a leading \<^verbatim>\<open>'/'\<close>, so \<^verbatim>\<open>os.path\<close> is \<^verbatim>\<open>posixpath\<close>.
\<close>

text \<open>\<^verbatim>\<open>s.startswith(p)\<close>\<close>

definition startswith :: "string \<Rightarrow> string \<Rightarrow> bool" where
  "startswith s p = (take (length p) s = p)"

text \<open>\<^verbatim>\<open>s.endswith(p)\<close>\<close>

definition endswith :: "string \<Rightarrow> string \<Rightarrow> bool" where
  "endswith s p = (length p \<le> length s \<and> drop (length s - length p) s = p)"

text \<open>
  \<^verbatim>\<open>os.path.join(a, b)\<close> of \<^verbatim>\<open>posixpath\<close>, for two arguments:
  \<^verbatim>\<open>
  path = a
  if b.startswith('/'):                     path = b
  elif path == '' or path.endswith('/'):    path += b
  else:                                     path += '/' + b
  return path
  \<close>
\<close>

definition os_path_join :: "string \<Rightarrow> string \<Rightarrow> string" where
  "os_path_join a b =
     (if startswith b ''/'' then b
      else if a = [] \<or> endswith a ''/'' then a @ b
      else a @ ''/'' @ b)"

section \<open>Making relative paths in the flags absolute\<close>

text \<open>The local list \<^verbatim>\<open>path_flags\<close> of \<^verbatim>\<open>MakeRelativePathsInFlagsAbsolute\<close>.\<close>

definition path_flags :: "string list" where
  "path_flags = [''-isystem'', ''-I'', ''-iquote'', ''--sysroot='']"

text \<open>
  The inner loop \<^verbatim>\<open>for path_flag in path_flags\<close>, on the pair of the two variables it
  may assign, \<^verbatim>\<open>(make_next_absolute, new_flag)\<close>. Each \<^verbatim>\<open>break\<close> ends the recursion.
\<close>

fun match_path_flags :: "string \<Rightarrow> string \<Rightarrow> string list \<Rightarrow> bool \<times> string \<Rightarrow> bool \<times> string" where
  "match_path_flags working_directory flag [] st = st"
| "match_path_flags working_directory flag (path_flag # pfs) (make_next_absolute, new_flag) =
     (if flag = path_flag then (True, new_flag)
      else if startswith flag path_flag then
        (let path = drop (length path_flag) flag
         in (make_next_absolute, path_flag @ os_path_join working_directory path))
      else match_path_flags working_directory flag pfs (make_next_absolute, new_flag))"

text \<open>
  The body of the outer loop up to the inner loop: \<^verbatim>\<open>new_flag = flag\<close>, then the
  \<^verbatim>\<open>if make_next_absolute\<close> block.
\<close>

definition absolutize_expected :: "string \<Rightarrow> bool \<Rightarrow> string \<Rightarrow> bool \<times> string" where
  "absolutize_expected working_directory make_next_absolute flag =
     (if make_next_absolute then
        (False, if \<not> startswith flag ''/'' then os_path_join working_directory flag else flag)
      else (make_next_absolute, flag))"

text \<open>
  One iteration of \<^verbatim>\<open>for flag in flags\<close>: the state is
  \<^verbatim>\<open>(make_next_absolute, new_flags)\<close>. The inner loop runs on every entry, whether or not
  \<^verbatim>\<open>make_next_absolute\<close> was set (the source has no \<^verbatim>\<open>else\<close> there), and a falsy
  \<^verbatim>\<open>new_flag\<close> (the empty string) is not appended.
\<close>

definition flag_step :: "string \<Rightarrow> bool \<times> string list \<Rightarrow> string \<Rightarrow> bool \<times> string list" where
  "flag_step working_directory st flag =
     (case st of (make_next_absolute, new_flags) \<Rightarrow>
        (case match_path_flags working_directory flag path_flags
                (absolutize_expected working_directory make_next_absolute flag) of
           (make_next_absolute', new_flag) \<Rightarrow>
             (make_next_absolute',
              if new_flag \<noteq> [] then new_flags @ [new_flag] else new_flags)))"

fun flags_loop :: "string \<Rightarrow> string list \<Rightarrow> bool \<times> string list \<Rightarrow> bool \<times> string list" where
  "flags_loop working_directory [] st = st"
| "flags_loop working_directory (flag # rest) st =
     flags_loop working_directory rest (flag_step working_directory st flag)"

definition MakeRelativePathsInFlagsAbsolute :: "string list \<Rightarrow> string \<Rightarrow> string list" where
  "MakeRelativePathsInFlagsAbsolute flags working_directory =
     (if working_directory = [] then flags
      else snd (flags_loop working_directory flags (False, [])))"


section \<open>Scraping the compiler's include directories\<close>

text \<open>
  Exceptions of the Python runtime that the script can raise. The script defines no
  exception class of its own and contains no \<^verbatim>\<open>try\<close> statement, so an exception
  raised inside a function leaves it unhandled. \<^verbatim>\<open>exn_class\<close> is the name of the
  exception's class.
\<close>

datatype exn = NameError string | OSError nat | AttributeError string

fun exn_class :: "exn \<Rightarrow> string" where
  "exn_class (NameError n) = ''NameError''"
| "exn_class (OSError errno) = ''OSError''"
| "exn_class (AttributeError a) = ''AttributeError''"

text \<open>
  What \<^verbatim>\<open>subprocess.Popen(...)\<close> followed by \<^verbatim>\<open>communicate('')\<close> gives: either
  the process cannot be started (\<^verbatim>\<open>OSError\<close> with an errno), or it runs and its two
  output streams are returned.
\<close>

datatype proc_result = LaunchFailure nat | Completed string string

text \<open>
  The environment of a call: the directory of the script file (the value of
  \<^verbatim>\<open>os.path.dirname(os.path.abspath(__file__))\<close>) and the operating system's answer
  to a process launch.
\<close>

record world =
  script_directory :: string
  run_process :: "string list \<Rightarrow> proc_result"

text \<open>
  The names bound in the module's global namespace once the script is loaded: the
  attributes every module has, the three imports of lines 1--3, the assignment to
  \<^verbatim>\<open>flags\<close> and the five function definitions. A global name that is not found
  there is looked up among the builtins; the ones the script refers to are listed.
\<close>

definition module_globals :: "string list" where
  "module_globals =
     [''__builtins__'', ''__doc__'', ''__file__'', ''__name__'', ''__package__'',
      ''os'', ''re'', ''ycm_core'',
      ''flags'', ''DirectoryOfThisScript'', ''MakeRelativePathsInFlagsAbsolute'',
      ''LoadSystemIncludes'', ''FlagsForFile'']"

definition builtins_used :: "string list" where
  "builtins_used = [''list'', ''len'', ''True'']"

definition name_bound :: "string list \<Rightarrow> string \<Rightarrow> bool" where
  "name_bound g n = (n \<in> set g \<or> n \<in> set builtins_used)"

text \<open>
  The regular expression of \<^verbatim>\<open>LoadSystemIncludes\<close>, compiled with \<^verbatim>\<open>re.DOTALL\<close>,
  is, in this order: the literal \<^verbatim>\<open>#include <\<close> (its punctuation escaped), three dots
  that are not escaped, so each of them matches any character, the literal
  \<^verbatim>\<open>> search starts here:\<close>, the non-greedy named group \<^verbatim>\<open>(?P<list>.*?)\<close> and the
  literal \<^verbatim>\<open>End of search list\<close>. \<^verbatim>\<open>match_header\<close> matches the part before the
  group at the start of a string and returns what follows it.
\<close>

definition header_literal :: string where
  "header_literal = ''#include <''"

definition header_tail :: string where
  "header_tail = ''> search starts here:''"

definition end_marker :: string where
  "end_marker = ''End of search list''"

definition match_header :: "string \<Rightarrow> string option" where
  "match_header s =
     (if startswith s header_literal \<and>
         length header_literal + 3 \<le> length s \<and>
         startswith (drop (length header_literal + 3) s) header_tail
      then Some (drop (length header_literal + 3 + length header_tail) s)
      else None)"

text \<open>The non-greedy group \<^verbatim>\<open>.*?\<close> followed by a literal: the shortest text before it.\<close>

fun lazy_until :: "string \<Rightarrow> string \<Rightarrow> string option" where
  "lazy_until marker [] = (if startswith [] marker then Some [] else None)"
| "lazy_until marker (c # s) =
     (if startswith (c # s) marker then Some []
      else map_option ((#) c) (lazy_until marker s))"

definition match_here :: "string \<Rightarrow> string option" where
  "match_here s = (case match_header s of None \<Rightarrow> None | Some r \<Rightarrow> lazy_until end_marker r)"

text \<open>
  \<^verbatim>\<open>re.search(regex, output)\<close> tries every start position from the left; the result is
  the group \<^verbatim>\<open>list\<close> of the first match, or \<^verbatim>\<open>None\<close>.
\<close>

fun re_search :: "string \<Rightarrow> string option" where
  "re_search [] = match_here []"
| "re_search (c # s) =
     (case match_here (c # s) of Some l \<Rightarrow> Some l | None \<Rightarrow> re_search s)"

text \<open>\<^verbatim>\<open>s.split('\n')\<close>\<close>

fun split_from :: "char \<Rightarrow> string \<Rightarrow> string \<Rightarrow> string list" where
  "split_from sep cur [] = [cur]"
| "split_from sep cur (c # s) =
     (if c = sep then cur # split_from sep [] s else split_from sep (cur @ [c]) s)"

definition split_newline :: "string \<Rightarrow> string list" where
  "split_newline s = split_from (CHR 0x0A) [] s"

text \<open>\<^verbatim>\<open>s.strip()\<close> of a byte string: tab, line feed, VT, FF, CR and space are removed.\<close>

definition is_space :: "char \<Rightarrow> bool" where
  "is_space c = (c \<in> set [CHR 0x09, CHR 0x0A, CHR 0x0B, CHR 0x0C, CHR 0x0D, CHR 0x20])"

definition strip :: "string \<Rightarrow> string" where
  "strip s = rev (dropWhile is_space (rev (dropWhile is_space s)))"

text \<open>\<^verbatim>\<open>s.find(sub)\<close>: the first index where \<^verbatim>\<open>sub\<close> occurs, or \<^verbatim>\<open>-1\<close>.\<close>

fun str_find :: "string \<Rightarrow> string \<Rightarrow> int" where
  "str_find [] sub = (if startswith [] sub then 0 else -1)"
| "str_find (c # s) sub =
     (if startswith (c # s) sub then 0
      else (let r = str_find s sub in if r < 0 then -1 else r + 1))"

text \<open>The loop \<^verbatim>\<open>for p in ....split('\n')\<close> with its list \<^verbatim>\<open>includes\<close>.\<close>

fun includes_loop :: "string list \<Rightarrow> string list \<Rightarrow> string list" where
  "includes_loop [] includes = includes"
| "includes_loop (p0 # ps) includes =
     (let p = strip p0 in
      if length p > 0 \<and> str_find p ''(framework directory)'' < 0
      then includes_loop ps (includes @ [''-isystem''] @ [p])
      else includes_loop ps includes)"

definition clang_command :: "string list" where
  "clang_command = [''clang'', ''-v'', ''-E'', ''-x'', ''c++'', ''-'']"

text \<open>
  \<^verbatim>\<open>LoadSystemIncludes\<close>, in the global namespace \<open>g\<close>. The second component of the
  result lists the commands handed to \<^verbatim>\<open>subprocess.Popen\<close>. The statements run in
  the source's order: \<^verbatim>\<open>re.compile\<close> needs the name \<^verbatim>\<open>re\<close>; \<^verbatim>\<open>subprocess.Popen\<close>
  needs the name \<^verbatim>\<open>subprocess\<close> before any argument is evaluated or any process is
  started; \<^verbatim>\<open>re.search(...)\<close> returns \<^verbatim>\<open>None\<close> when nothing matches, and
  \<^verbatim>\<open>None.group\<close> raises \<^verbatim>\<open>AttributeError\<close>.
\<close>

definition LoadSystemIncludes ::
  "string list \<Rightarrow> world \<Rightarrow> (exn + string list) \<times> string list list" where
  "LoadSystemIncludes g w =
     (if \<not> name_bound g ''re'' then (Inl (NameError ''re''), [])
      else if \<not> name_bound g ''subprocess'' then (Inl (NameError ''subprocess''), [])
      else
        (case run_process w clang_command of
           LaunchFailure errno \<Rightarrow> (Inl (OSError errno), [clang_command])
         | Completed process_out process_err \<Rightarrow>
             (let output = process_out @ process_err in
              case re_search output of
                None \<Rightarrow> (Inl (AttributeError ''group''), [clang_command])
              | Some lst \<Rightarrow> (Inr (includes_loop (split_newline lst) []), [clang_command]))))"

section \<open>The entry point\<close>

text \<open>The module-level list \<^verbatim>\<open>flags\<close>.\<close>

definition flags :: "string list" where
  "flags = [''-Wall'', ''-Wextra'', ''-std=c++11'', ''-I'', ''.'', ''-I'', ''/usr/include/eigen3'',
            ''-DERIS_TESTS'']"

definition DirectoryOfThisScript :: "string list \<Rightarrow> world \<Rightarrow> exn + string" where
  "DirectoryOfThisScript g w =
     (if \<not> name_bound g ''os'' then Inl (NameError ''os'')
      else if \<not> name_bound g ''__file__'' then Inl (NameError ''__file__'')
      else Inr (script_directory w))"

text \<open>A value stored in the dictionary that \<^verbatim>\<open>FlagsForFile\<close> returns.\<close>

datatype pyval = StrList "string list" | PyBool bool

text \<open>
  \<^verbatim>\<open>FlagsForFile( filename, **kwargs )\<close>. The left operand of \<^verbatim>\<open>+\<close> is evaluated
  first, then \<^verbatim>\<open>LoadSystemIncludes()\<close> is called. The dictionary is an association
  list in the order of the literal.
\<close>

definition FlagsForFile ::
  "string list \<Rightarrow> world \<Rightarrow> string \<Rightarrow> (string \<times> string) list \<Rightarrow>
   (exn + (string \<times> pyval) list) \<times> string list list" where
  "FlagsForFile g w filename kwargs =
     (if \<not> name_bound g ''MakeRelativePathsInFlagsAbsolute''
        then (Inl (NameError ''MakeRelativePathsInFlagsAbsolute''), [])
      else if \<not> name_bound g ''flags'' then (Inl (NameError ''flags''), [])
      else if \<not> name_bound g ''DirectoryOfThisScript''
        then (Inl (NameError ''DirectoryOfThisScript''), [])
      else
        (case DirectoryOfThisScript g w of
           Inl e \<Rightarrow> (Inl e, [])
         | Inr working_directory \<Rightarrow>
             (let absolute = MakeRelativePathsInFlagsAbsolute flags working_directory in
              if \<not> name_bound g ''LoadSystemIncludes''
                then (Inl (NameError ''LoadSystemIncludes''), [])
              else
                (case LoadSystemIncludes g w of
                   (Inl e, spawned) \<Rightarrow> (Inl e, spawned)
                 | (Inr includes, spawned) \<Rightarrow>
                     (let final_flags = absolute @ includes
                      in (Inr [(''flags'', StrList final_flags), (''do_cache'', PyBool True)],
                          spawned))))))"

section \<open>Vocabulary of the properties\<close>

text \<open>An entry that starts with none of the path flags (so it is not a path flag either).\<close>

definition no_path_flag_prefix :: "string \<Rightarrow> bool" where
  "no_path_flag_prefix f = list_all (\<lambda>pf. \<not> startswith f pf) path_flags"

definition no_path_flag_prefixes :: "string list \<Rightarrow> bool" where
  "no_path_flag_prefixes fs = list_all no_path_flag_prefix fs"

text \<open>An entry that is a path flag followed by more characters, such as \<^verbatim>\<open>-Ifoo\<close>.\<close>

definition attached_path_flag :: "string \<Rightarrow> bool" where
  "attached_path_flag f = list_ex (\<lambda>pf. startswith f pf \<and> f \<noteq> pf) path_flags"

text \<open>
  Two views of the outer loop used in the proofs: what one iteration computes for an
  entry, \<open>(make_next_absolute, new_flag)\<close>, and the loop without its accumulator.
\<close>

definition emit :: "string \<Rightarrow> bool \<Rightarrow> string \<Rightarrow> bool \<times> string" where
  "emit wd m f = match_path_flags wd f path_flags (absolutize_expected wd m f)"

fun run :: "string \<Rightarrow> bool \<Rightarrow> string list \<Rightarrow> string list" where
  "run wd m [] = []"
| "run wd m (f # fs) =
     (if snd (emit wd m f) \<noteq> [] then [snd (emit wd m f)] else []) @ run wd (fst (emit wd m f)) fs"

fun mna_after :: "string \<Rightarrow> bool \<Rightarrow> string list \<Rightarrow> bool" where
  "mna_after wd m [] = m"
| "mna_after wd m (f # fs) = mna_after wd (fst (emit wd m f)) fs"

text \<open>
  Environments for concrete runs: a compiler that prints a search list with two
  directories and one framework directory on its standard error, a machine without the
  compiler (errno 2), a compiler whose output has neither marker, and the module
  namespace with the name \<^verbatim>\<open>subprocess\<close> added.
\<close>

definition mock_output :: string where
  "mock_output =
     ''clang version 3.5\<newline>#include <...> search starts here:\<newline> /usr/include/c++/v1\<newline> /System/Library/Frameworks (framework directory)\<newline> /usr/include\<newline>End of search list.\<newline>''"

definition mock_world :: world where
  "mock_world =
     \<lparr> script_directory = ''/home/u/eris'', run_process = (\<lambda>args. Completed [] mock_output) \<rparr>"

definition clang_missing :: world where
  "clang_missing =
     \<lparr> script_directory = ''/home/u/eris'', run_process = (\<lambda>args. LaunchFailure 2) \<rparr>"

definition no_markers_world :: world where
  "no_markers_world =
     \<lparr> script_directory = ''/home/u/eris'',
       run_process = (\<lambda>args. Completed [] ''clang: error: unsupported option'') \<rparr>"

definition patched_globals :: "string list" where
  "patched_globals = ''subprocess'' # module_globals"

section \<open>Facts about the string primitives\<close>

lemma startswith_append: "startswith (pf @ p) pf"
  by (simp add: startswith_def)

lemma startswith_Cons: "startswith (c # s) (d # p) = (c = d \<and> startswith s p)"
  by (auto simp: startswith_def)

lemma startswith_Nil: "startswith [] p = (p = [])"
  by (auto simp: startswith_def)

lemma startswith_decomp: "startswith f pf \<Longrightarrow> f = pf @ drop (length pf) f"
  by (metis append_take_drop_id startswith_def)

lemma not_startswith_neq: "\<not> startswith f pf \<Longrightarrow> f \<noteq> pf"
  by (auto simp: startswith_def)

lemma startswith_slash: "startswith s ''/'' = (\<exists>t. s = CHR ''/'' # t)"
  by (cases s) (auto simp: startswith_def)

lemma join_abs: "startswith b ''/'' \<Longrightarrow> os_path_join a b = b"
  by (simp add: os_path_join_def)

lemma join_nonempty: "a \<noteq> [] \<Longrightarrow> os_path_join a b \<noteq> []"
  by (auto simp: os_path_join_def startswith_slash)

lemma join_starts: "startswith a ''/'' \<Longrightarrow> startswith (os_path_join a b) ''/''"
  by (auto simp: os_path_join_def startswith_slash)

section \<open>The inner loop over the path flags\<close>

lemma match_skip:
  "\<not> startswith f pf \<Longrightarrow>
   match_path_flags wd f (pf # pfs) st = match_path_flags wd f pfs st"
  by (cases st) (simp add: not_startswith_neq)

lemma match_head:
  "match_path_flags wd (pf @ p) (pf # pfs) (m, nf) =
     (if p = [] then (True, nf) else (m, pf @ os_path_join wd p))"
  by (simp add: startswith_append)

text \<open>No path flag is a prefix of an entry that starts with a later path flag.\<close>

lemma ns_I: "\<not> startswith (''-I'' @ p) ''-isystem''"
  by (simp add: startswith_Cons)

lemma ns_iquote:
  "\<not> startswith (''-iquote'' @ p) ''-isystem''" "\<not> startswith (''-iquote'' @ p) ''-I''"
  by (simp_all add: startswith_Cons)

lemma ns_sysroot:
  "\<not> startswith (''--sysroot='' @ p) ''-isystem''" "\<not> startswith (''--sysroot='' @ p) ''-I''"
  "\<not> startswith (''--sysroot='' @ p) ''-iquote''"
  by (simp_all add: startswith_Cons)

lemma match_at_isystem:
  "match_path_flags wd (''-isystem'' @ p) path_flags (m, nf) =
     (if p = [] then (True, nf) else (m, ''-isystem'' @ os_path_join wd p))"
  unfolding path_flags_def by (rule match_head)

lemma match_at_I:
  "match_path_flags wd (''-I'' @ p) path_flags (m, nf) =
     (if p = [] then (True, nf) else (m, ''-I'' @ os_path_join wd p))"
  unfolding path_flags_def by (simp only: match_skip [OF ns_I] match_head)

lemma match_at_iquote:
  "match_path_flags wd (''-iquote'' @ p) path_flags (m, nf) =
     (if p = [] then (True, nf) else (m, ''-iquote'' @ os_path_join wd p))"
  unfolding path_flags_def
  by (simp only: match_skip [OF ns_iquote(1)] match_skip [OF ns_iquote(2)] match_head)

lemma match_at_sysroot:
  "match_path_flags wd (''--sysroot='' @ p) path_flags (m, nf) =
     (if p = [] then (True, nf) else (m, ''--sysroot='' @ os_path_join wd p))"
  unfolding path_flags_def
  by (simp only: match_skip [OF ns_sysroot(1)] match_skip [OF ns_sysroot(2)]
        match_skip [OF ns_sysroot(3)] match_head)

lemma path_flags_cases:
  "pf \<in> set path_flags \<Longrightarrow>
   pf = ''-isystem'' \<or> pf = ''-I'' \<or> pf = ''-iquote'' \<or> pf = ''--sysroot=''"
  unfolding path_flags_def by (simp only: set_simps insert_iff empty_iff) blast

lemma match_at:
  assumes "pf \<in> set path_flags"
  shows "match_path_flags wd (pf @ p) path_flags (m, nf) =
     (if p = [] then (True, nf) else (m, pf @ os_path_join wd p))"
  using path_flags_cases [OF assms]
    match_at_isystem [of wd p m nf] match_at_I [of wd p m nf]
    match_at_iquote [of wd p m nf] match_at_sysroot [of wd p m nf]
  by blast

lemma match_bare:
  "f \<in> set path_flags \<Longrightarrow> match_path_flags wd f path_flags (m, nf) = (True, nf)"
  using match_at [of f wd "[]" m nf] by simp

lemma match_attached:
  "pf \<in> set path_flags \<Longrightarrow> p \<noteq> [] \<Longrightarrow>
   match_path_flags wd (pf @ p) path_flags (m, nf) = (m, pf @ os_path_join wd p)"
  using match_at [of pf wd p m nf] by simp

lemma match_none_gen:
  "list_all (\<lambda>pf. \<not> startswith f pf) pfs \<Longrightarrow> match_path_flags wd f pfs st = st"
  by (induction pfs) (simp_all add: match_skip)

lemma match_none:
  "no_path_flag_prefix f \<Longrightarrow> match_path_flags wd f path_flags st = st"
  unfolding no_path_flag_prefix_def by (rule match_none_gen)

text \<open>Every entry is a path flag, a path flag with a path attached, or neither.\<close>

lemma entry_cases:
  obtains (bare) "f \<in> set path_flags"
  | (attached) pf p where "pf \<in> set path_flags" "p \<noteq> []" "f = pf @ p"
  | (plain) "no_path_flag_prefix f"
proof (cases "no_path_flag_prefix f")
  case True
  then show ?thesis by (rule plain)
next
  case False
  then obtain pf where pf: "pf \<in> set path_flags" "startswith f pf"
    by (auto simp: no_path_flag_prefix_def list_all_iff)
  then have f: "f = pf @ drop (length pf) f"
    by (simp add: startswith_decomp)
  show ?thesis
  proof (cases "drop (length pf) f = []")
    case True
    with f have "f = pf" by simp
    with pf show ?thesis using bare by simp
  next
    case False
    then show ?thesis using attached pf f by blast
  qed
qed

lemma path_flag_nonempty: "pf \<in> set path_flags \<Longrightarrow> pf \<noteq> []"
  by (auto dest: path_flags_cases)

lemma path_flag_not_abs: "pf \<in> set path_flags \<Longrightarrow> \<not> startswith (pf @ p) ''/''"
  by (auto dest!: path_flags_cases simp: startswith_Cons)

lemma abs_no_prefix: "startswith f ''/'' \<Longrightarrow> no_path_flag_prefix f"
  by (cases f rule: entry_cases)
     (auto simp: path_flag_not_abs dest: path_flag_not_abs [where p = "[]", simplified])

lemma not_attached_cases:
  "\<not> attached_path_flag f \<Longrightarrow> f \<in> set path_flags \<or> no_path_flag_prefix f"
  by (auto simp: attached_path_flag_def no_path_flag_prefix_def list_all_iff list_ex_iff)

lemma I_bare: "''-I'' \<in> set path_flags"
  by (simp add: path_flags_def)

lemma sysroot_bare: "''--sysroot='' \<in> set path_flags"
  by (simp add: path_flags_def)

section \<open>The outer loop over the flags\<close>

lemma flag_step_emit:
  "flag_step wd (m, acc) f =
     (fst (emit wd m f), acc @ (if snd (emit wd m f) \<noteq> [] then [snd (emit wd m f)] else []))"
  by (simp add: flag_step_def emit_def split: prod.splits)

lemma flags_loop_run:
  "flags_loop wd fs (m, acc) = (mna_after wd m fs, acc @ run wd m fs)"
proof (induction fs arbitrary: m acc)
  case Nil
  show ?case by simp
next
  case (Cons f fs)
  show ?case
    by (simp only: flags_loop.simps flag_step_emit run.simps mna_after.simps Cons.IH append_assoc)
qed

lemma MakeRel_run:
  "wd \<noteq> [] \<Longrightarrow> MakeRelativePathsInFlagsAbsolute fs wd = run wd False fs"
  by (simp add: MakeRelativePathsInFlagsAbsolute_def flags_loop_run)

lemma run_append: "run wd m (xs @ ys) = run wd m xs @ run wd (mna_after wd m xs) ys"
  by (induction xs arbitrary: m) simp_all

lemma emit_bare:
  "f \<in> set path_flags \<Longrightarrow> emit wd m f = (True, if m then os_path_join wd f else f)"
  using path_flag_not_abs [of f "[]"]
  by (cases "absolutize_expected wd m f")
     (auto simp: emit_def match_bare absolutize_expected_def split: if_splits)

lemma emit_attached:
  "pf \<in> set path_flags \<Longrightarrow> p \<noteq> [] \<Longrightarrow> emit wd m (pf @ p) = (False, pf @ os_path_join wd p)"
  by (cases "absolutize_expected wd m (pf @ p)")
     (auto simp: emit_def match_attached absolutize_expected_def split: if_splits)

lemma emit_plain:
  "no_path_flag_prefix f \<Longrightarrow>
   emit wd m f = (False, if m \<and> \<not> startswith f ''/'' then os_path_join wd f else f)"
  by (simp add: emit_def match_none absolutize_expected_def)

lemma emit_nonempty:
  assumes "wd \<noteq> []" "f \<noteq> []" shows "snd (emit wd m f) \<noteq> []"
proof (cases f rule: entry_cases)
  case bare
  then show ?thesis using assms by (simp add: emit_bare join_nonempty)
next
  case (attached pf p)
  then show ?thesis using assms by (simp add: emit_attached join_nonempty)
next
  case plain
  then show ?thesis using assms by (simp add: emit_plain join_nonempty)
qed

lemma emit_empty:
  assumes "wd \<noteq> []" "snd (emit wd m f) = []" shows "\<not> m \<and> \<not> fst (emit wd m f)"
proof -
  have f: "f = []" using emit_nonempty [OF assms(1), of f m] assms(2) by blast
  have "no_path_flag_prefix []"
    by (auto simp: no_path_flag_prefix_def list_all_iff startswith_Nil dest: path_flag_nonempty)
  then show ?thesis using assms join_nonempty [OF assms(1), of "[]"] unfolding f
    by (auto simp: emit_plain startswith_Nil split: if_splits)
qed

lemma run_length:
  "wd \<noteq> [] \<Longrightarrow> [] \<notin> set fs \<Longrightarrow> length (run wd m fs) = length fs"
  by (induction fs arbitrary: m) (auto simp: emit_nonempty)

lemma mna_after_snoc_bare:
  "pf \<in> set path_flags \<Longrightarrow> mna_after wd m (pre @ [pf]) = True"
  by (induction pre arbitrary: m) (simp_all add: emit_bare)

lemma run_plain:
  "list_all no_path_flag_prefix fs \<Longrightarrow> run wd False fs = filter (\<lambda>f. f \<noteq> []) fs"
  by (induction fs) (simp_all add: emit_plain)

lemma emit_expected:
  assumes "\<not> attached_path_flag e" "\<not> startswith e ''/''"
  shows "snd (emit wd True e) = os_path_join wd e"
  using not_attached_cases [OF assms(1)] assms(2)
  by (auto simp: emit_bare emit_plain)

lemma emit_expected_abs:
  assumes "startswith e ''/''"
  shows "emit wd True e = (False, e)"
  using abs_no_prefix [OF assms] assms by (simp add: emit_plain)

lemma run_after_bare:
  assumes "pf \<in> set path_flags"
  shows "run wd False (pre @ pf # e # post) =
         run wd False (pre @ [pf]) @
         (if snd (emit wd True e) \<noteq> [] then [snd (emit wd True e)] else []) @
         run wd (fst (emit wd True e)) post"
proof -
  have "pre @ pf # e # post = (pre @ [pf]) @ e # post" by simp
  then show ?thesis
    by (simp only: run_append mna_after_snoc_bare [OF assms] run.simps)
qed

text \<open>
  The entry right after a path flag at index \<open>i\<close>, when no earlier entry is empty: the
  result has, at index \<open>i + 1\<close>, what the iteration computed for that entry.
\<close>

lemma nth_after_bare:
  assumes wd: "wd \<noteq> []"
    and i: "Suc i < length fs"
    and bare: "fs ! i \<in> set path_flags"
    and nonempty: "[] \<notin> set (take i fs)"
    and e: "snd (emit wd True (fs ! Suc i)) \<noteq> []"
  shows "run wd False fs ! Suc i = snd (emit wd True (fs ! Suc i))"
proof -
  let ?pre = "take i fs" and ?pf = "fs ! i" and ?e = "fs ! Suc i"
  let ?post = "drop (Suc (Suc i)) fs"
  have dec: "fs = ?pre @ ?pf # ?e # ?post"
    using i by (metis Cons_nth_drop_Suc Suc_lessD append_take_drop_id)
  have ne: "[] \<notin> set (?pre @ [?pf])"
    using nonempty path_flag_nonempty [OF bare] by auto
  have len: "length (run wd False (?pre @ [?pf])) = Suc i"
    using run_length [OF wd ne] i by simp
  have "run wd False (?pre @ ?pf # ?e # ?post) =
        run wd False (?pre @ [?pf]) @ snd (emit wd True ?e) # run wd (fst (emit wd True ?e)) ?post"
    using e by (simp add: run_after_bare [OF bare])
  then show ?thesis
    using nth_append_length [of "run wd False (?pre @ [?pf])"] len dec by metis
qed

text \<open>With an absolute working directory, what an iteration emits is left alone by a second pass.\<close>

lemma emit_stable:
  assumes wd: "startswith wd ''/''" and m: "m2 \<longrightarrow> m"
  shows "emit wd m f = (m', nf) \<Longrightarrow> nf \<noteq> [] \<Longrightarrow>
         snd (emit wd m2 nf) = nf \<and> (fst (emit wd m2 nf) \<longrightarrow> m')"
proof (cases f rule: entry_cases)
  case bare
  assume e: "emit wd m f = (m', nf)"
  show ?thesis
  proof (cases m)
    case True
    with e bare have nf: "nf = os_path_join wd f" "m'" by (simp_all add: emit_bare)
    have a: "startswith nf ''/''" unfolding nf by (rule join_starts [OF wd])
    show ?thesis using emit_plain [OF abs_no_prefix [OF a], of wd m2] a by auto
  next
    case False
    with e bare m show ?thesis by (simp add: emit_bare)
  qed
next
  case (attached pf p)
  assume e: "emit wd m f = (m', nf)"
  have a: "startswith (os_path_join wd p) ''/''" by (rule join_starts [OF wd])
  then have ne: "os_path_join wd p \<noteq> []" by (auto simp: startswith_slash)
  from e attached have nf: "nf = pf @ os_path_join wd p" "\<not> m'" by (simp_all add: emit_attached)
  show ?thesis unfolding nf
    by (simp add: emit_attached [OF attached(1) ne] join_abs [OF a])
next
  case plain
  assume e: "emit wd m f = (m', nf)"
  show ?thesis
  proof (cases "m \<and> \<not> startswith f ''/''")
    case True
    with e plain have nf: "nf = os_path_join wd f" by (simp add: emit_plain)
    have a: "startswith nf ''/''" unfolding nf by (rule join_starts [OF wd])
    show ?thesis using emit_plain [OF abs_no_prefix [OF a], of wd m2] a by auto
  next
    case False
    with e plain have nf: "nf = f" by (auto simp add: emit_plain)
    show ?thesis using False m unfolding nf by (auto simp: emit_plain [OF plain])
  qed
qed

lemma run_idem:
  assumes wd: "startswith wd ''/''"
  shows "(m2 \<longrightarrow> m) \<Longrightarrow> run wd m2 (run wd m fs) = run wd m fs"
proof (induction fs arbitrary: m m2)
  case Nil
  show ?case by simp
next
  case (Cons f fs)
  have wdne: "wd \<noteq> []" using wd by (auto simp: startswith_slash)
  obtain m' nf where e: "emit wd m f = (m', nf)" by (cases "emit wd m f")
  show ?case
  proof (cases "nf = []")
    case True
    then have "\<not> m \<and> \<not> m'" using emit_empty [OF wdne, of m f] e by simp
    then have "\<not> m2" using Cons.prems by simp
    then show ?thesis using e True Cons.IH [of m2 m'] by simp
  next
    case False
    from emit_stable [OF wd Cons.prems e False]
    have s: "snd (emit wd m2 nf) = nf" "fst (emit wd m2 nf) \<longrightarrow> m'" by simp_all
    show ?thesis using e False s(1) Cons.IH [OF s(2)] by simp
  qed
qed

section \<open>Properties of \<^verbatim>\<open>MakeRelativePathsInFlagsAbsolute\<close>\<close>

text \<open>
  C8. For every flag list, when the working directory is empty the function returns the
  flags as they are: no entry is rewritten.
\<close>

theorem empty_working_directory_unchanged:
  "MakeRelativePathsInFlagsAbsolute fs [] = fs"
  by (simp add: MakeRelativePathsInFlagsAbsolute_def)

text \<open>
  C2, as stated, at a concrete input: the list \<^verbatim>\<open>['', '-Wall']\<close> has no path-flag prefix
  in it and the working directory \<^verbatim>\<open>/proj\<close> is not empty, yet the result is
  \<^verbatim>\<open>['-Wall']\<close>: the empty entry is dropped by \<^verbatim>\<open>if new_flag:\<close>.
\<close>

theorem no_prefix_unchanged_counterexample:
  "no_path_flag_prefixes ['''', ''-Wall''] \<and> ''/proj'' \<noteq> [] \<and>
   MakeRelativePathsInFlagsAbsolute ['''', ''-Wall''] ''/proj'' = [''-Wall''] \<and>
   MakeRelativePathsInFlagsAbsolute ['''', ''-Wall''] ''/proj'' \<noteq> ['''', ''-Wall'']"
  by (simp add: no_path_flag_prefixes_def no_path_flag_prefix_def path_flags_def startswith_def
      MakeRelativePathsInFlagsAbsolute_def flag_step_def absolutize_expected_def)

text \<open>
  C2, amended. For every flag list in which no entry starts with a path flag and every
  non-empty working directory, the result is the input list without its empty entries:
  every non-empty entry is kept, unchanged and in its order.
\<close>

theorem no_prefix_flags_filtered:
  assumes "working_directory \<noteq> []" "no_path_flag_prefixes fs"
  shows "MakeRelativePathsInFlagsAbsolute fs working_directory = filter (\<lambda>f. f \<noteq> []) fs"
  using assms by (simp add: MakeRel_run run_plain no_path_flag_prefixes_def)

theorem no_prefix_flags_filtered_witness:
  "''/proj'' \<noteq> [] \<and> no_path_flag_prefixes [''-Wall'', '''', ''-std=c++11''] \<and>
   MakeRelativePathsInFlagsAbsolute [''-Wall'', '''', ''-std=c++11''] ''/proj''
     = [''-Wall'', ''-std=c++11'']"
proof -
  have h: "no_path_flag_prefixes [''-Wall'', '''', ''-std=c++11'']"
    by (simp add: no_path_flag_prefixes_def no_path_flag_prefix_def path_flags_def startswith_def)
  have w: "''/proj'' \<noteq> []" by simp
  show ?thesis using no_prefix_flags_filtered [OF w h] h by simp
qed

text \<open>
  C3, as stated, at a concrete input: in \<^verbatim>\<open>['-I', '-Ifoo']\<close> with working directory
  \<^verbatim>\<open>/proj\<close> the entry \<^verbatim>\<open>-Ifoo\<close> follows the bare \<^verbatim>\<open>-I\<close> and does not start with
  \<^verbatim>\<open>/\<close>, but the result at its position is \<^verbatim>\<open>-I/proj/foo\<close>, not the join
  \<^verbatim>\<open>/proj/-Ifoo\<close>: the loop over the path flags runs on this entry too.
\<close>

theorem expected_path_no_prefix_processing_counterexample:
  "''/proj'' \<noteq> [] \<and> [''-I'', ''-Ifoo''] ! 0 \<in> set path_flags \<and>
   \<not> startswith ([''-I'', ''-Ifoo''] ! 1) ''/'' \<and>
   MakeRelativePathsInFlagsAbsolute [''-I'', ''-Ifoo''] ''/proj'' ! 1 = ''-I/proj/foo'' \<and>
   os_path_join ''/proj'' ([''-I'', ''-Ifoo''] ! 1) = ''/proj/-Ifoo'' \<and>
   MakeRelativePathsInFlagsAbsolute [''-I'', ''-Ifoo''] ''/proj'' ! 1
     \<noteq> os_path_join ''/proj'' ([''-I'', ''-Ifoo''] ! 1)"
  by (simp add: path_flags_def startswith_def os_path_join_def endswith_def
      MakeRelativePathsInFlagsAbsolute_def flag_step_def absolutize_expected_def)

text \<open>
  C3, amended. For every non-empty working directory, let an entry immediately follow a
  bare path flag (\<^verbatim>\<open>-isystem\<close>, \<^verbatim>\<open>-I\<close>, \<^verbatim>\<open>-iquote\<close> or \<^verbatim>\<open>--sysroot=\<close> as its own
  entry) at index \<open>i\<close>, with no empty entry before index \<open>i\<close>. The loop over the path
  flags runs on that entry as on any other. If the entry does not start with \<^verbatim>\<open>/\<close>
  and is not a path flag followed by more characters, the result at index \<open>i + 1\<close> is
  exactly the join of the working directory and the entry. If the entry is a path flag
  \<open>pf\<close> followed by a non-empty \<open>p\<close>, the result at index \<open>i + 1\<close> is \<open>pf\<close> followed
  by the join of the working directory and \<open>p\<close>.
\<close>

theorem entry_after_bare_prefix_joined:
  assumes wd: "working_directory \<noteq> []"
    and i: "Suc i < length fs"
    and bare: "fs ! i \<in> set path_flags"
    and nonempty: "[] \<notin> set (take i fs)"
  shows "(\<not> startswith (fs ! Suc i) ''/'' \<and> \<not> attached_path_flag (fs ! Suc i) \<longrightarrow>
            MakeRelativePathsInFlagsAbsolute fs working_directory ! Suc i =
            os_path_join working_directory (fs ! Suc i)) \<and>
         (pf \<in> set path_flags \<and> p \<noteq> [] \<and> fs ! Suc i = pf @ p \<longrightarrow>
            MakeRelativePathsInFlagsAbsolute fs working_directory ! Suc i =
            pf @ os_path_join working_directory p)"
proof (intro conjI impI)
  assume a: "\<not> startswith (fs ! Suc i) ''/'' \<and> \<not> attached_path_flag (fs ! Suc i)"
  then have e: "snd (emit working_directory True (fs ! Suc i)) =
                os_path_join working_directory (fs ! Suc i)"
    by (simp add: emit_expected)
  then have "snd (emit working_directory True (fs ! Suc i)) \<noteq> []"
    by (simp add: join_nonempty [OF wd])
  from nth_after_bare [OF wd i bare nonempty this] e
  show "MakeRelativePathsInFlagsAbsolute fs working_directory ! Suc i =
        os_path_join working_directory (fs ! Suc i)"
    by (simp add: MakeRel_run [OF wd])
next
  assume a: "pf \<in> set path_flags \<and> p \<noteq> [] \<and> fs ! Suc i = pf @ p"
  then have e: "snd (emit working_directory True (fs ! Suc i)) =
                pf @ os_path_join working_directory p"
    by (simp add: emit_attached)
  then have "snd (emit working_directory True (fs ! Suc i)) \<noteq> []"
    using a by (simp add: path_flag_nonempty)
  from nth_after_bare [OF wd i bare nonempty this] e
  show "MakeRelativePathsInFlagsAbsolute fs working_directory ! Suc i =
        pf @ os_path_join working_directory p"
    by (simp add: MakeRel_run [OF wd])
qed

theorem entry_after_bare_prefix_joined_witness:
  "''/proj'' \<noteq> [] \<and> Suc 0 < length [''-I'', ''include'', ''-Wall''] \<and>
   [''-I'', ''include'', ''-Wall''] ! 0 \<in> set path_flags \<and>
   [] \<notin> set (take 0 [''-I'', ''include'', ''-Wall'']) \<and>
   \<not> startswith ([''-I'', ''include'', ''-Wall''] ! Suc 0) ''/'' \<and>
   \<not> attached_path_flag ([''-I'', ''include'', ''-Wall''] ! Suc 0) \<and>
   MakeRelativePathsInFlagsAbsolute [''-I'', ''include'', ''-Wall''] ''/proj'' ! Suc 0
     = ''/proj/include'' \<and>
   Suc 0 < length [''-iquote'', ''-Ifoo''] \<and> [''-iquote'', ''-Ifoo''] ! 0 \<in> set path_flags \<and>
   [] \<notin> set (take 0 [''-iquote'', ''-Ifoo'']) \<and>
   ''-I'' \<in> set path_flags \<and> ''foo'' \<noteq> [] \<and> [''-iquote'', ''-Ifoo''] ! Suc 0 = ''-I'' @ ''foo'' \<and>
   MakeRelativePathsInFlagsAbsolute [''-iquote'', ''-Ifoo''] ''/proj'' ! Suc 0 = ''-I/proj/foo''"
proof -
  have w: "''/proj'' \<noteq> []" by simp
  have i1: "Suc 0 < length [''-I'', ''include'', ''-Wall'']" by simp
  have b1: "[''-I'', ''include'', ''-Wall''] ! 0 \<in> set path_flags" by (simp add: path_flags_def)
  have n1: "[] \<notin> set (take 0 [''-I'', ''include'', ''-Wall''])" by simp
  have r1: "\<not> startswith ([''-I'', ''include'', ''-Wall''] ! Suc 0) ''/''"
    by (simp add: startswith_def)
  have a1: "\<not> attached_path_flag ([''-I'', ''include'', ''-Wall''] ! Suc 0)"
    by (simp add: attached_path_flag_def path_flags_def startswith_def)
  have j1: "os_path_join ''/proj'' ''include'' = ''/proj/include''"
    by (simp add: os_path_join_def startswith_def endswith_def)
  have i2: "Suc 0 < length [''-iquote'', ''-Ifoo'']" by simp
  have b2: "[''-iquote'', ''-Ifoo''] ! 0 \<in> set path_flags" by (simp add: path_flags_def)
  have n2: "[] \<notin> set (take 0 [''-iquote'', ''-Ifoo''])" by simp
  have p2: "''-I'' \<in> set path_flags" by (rule I_bare)
  have e2: "[''-iquote'', ''-Ifoo''] ! Suc 0 = ''-I'' @ ''foo''" by simp
  have j2: "os_path_join ''/proj'' ''foo'' = ''/proj/foo''"
    by (simp add: os_path_join_def startswith_def endswith_def)
  have c1: "MakeRelativePathsInFlagsAbsolute [''-I'', ''include'', ''-Wall''] ''/proj'' ! Suc 0
     = ''/proj/include''"
    using entry_after_bare_prefix_joined [OF w i1 b1 n1] r1 a1 j1 by simp
  have c2: "MakeRelativePathsInFlagsAbsolute [''-iquote'', ''-Ifoo''] ''/proj'' ! Suc 0
     = ''-I/proj/foo''"
    using entry_after_bare_prefix_joined [OF w i2 b2 n2, of "''-I''" "''foo''"] p2 e2 j2 by simp
  show ?thesis using w i1 b1 n1 r1 a1 c1 i2 b2 n2 p2 e2 c2 by simp
qed

text \<open>
  C5, as stated, at a concrete input: in \<^verbatim>\<open>['-I', '-Ifoo']\<close> the relative path entry
  \<^verbatim>\<open>-Ifoo\<close> follows a bare \<^verbatim>\<open>-I\<close>, but the working directory \<^verbatim>\<open>/proj\<close> joined with
  it, \<^verbatim>\<open>/proj/-Ifoo\<close>, is nowhere in the result \<^verbatim>\<open>['-I', '-I/proj/foo']\<close>.
\<close>

theorem relative_after_I_counterexample:
  "''/proj'' \<noteq> [] \<and> [''-I'', ''-Ifoo''] ! 0 = ''-I'' \<and>
   \<not> startswith ([''-I'', ''-Ifoo''] ! 1) ''/'' \<and>
   MakeRelativePathsInFlagsAbsolute [''-I'', ''-Ifoo''] ''/proj'' = [''-I'', ''-I/proj/foo''] \<and>
   os_path_join ''/proj'' ([''-I'', ''-Ifoo''] ! 1)
     \<notin> set (MakeRelativePathsInFlagsAbsolute [''-I'', ''-Ifoo''] ''/proj'')"
  by (simp add: path_flags_def startswith_def os_path_join_def endswith_def
      MakeRelativePathsInFlagsAbsolute_def flag_step_def absolutize_expected_def)

text \<open>
  C5, amended. For every non-empty working directory: every entry that follows a bare
  \<^verbatim>\<open>-I\<close> entry, does not start with \<^verbatim>\<open>/\<close> and is not itself a path flag followed by
  more characters appears in the result as the working directory joined with it; and
  every entry starting with \<^verbatim>\<open>/\<close> that follows a bare \<^verbatim>\<open>-I\<close> entry appears in the
  result unchanged.
\<close>

theorem paths_after_I:
  assumes wd: "working_directory \<noteq> []"
    and i: "Suc i < length fs"
    and bare: "fs ! i = ''-I''"
  shows "(\<not> startswith (fs ! Suc i) ''/'' \<and> \<not> attached_path_flag (fs ! Suc i) \<longrightarrow>
           os_path_join working_directory (fs ! Suc i)
             \<in> set (MakeRelativePathsInFlagsAbsolute fs working_directory)) \<and>
         (startswith (fs ! Suc i) ''/'' \<longrightarrow>
           fs ! Suc i \<in> set (MakeRelativePathsInFlagsAbsolute fs working_directory))"
proof -
  let ?pre = "take i fs" and ?e = "fs ! Suc i"
  let ?post = "drop (Suc (Suc i)) fs"
  have dec: "fs = ?pre @ ''-I'' # ?e # ?post"
    using i bare by (metis Cons_nth_drop_Suc Suc_lessD append_take_drop_id)
  have r: "run working_directory False fs =
        run working_directory False (?pre @ [''-I'']) @
         (if snd (emit working_directory True ?e) \<noteq> []
          then [snd (emit working_directory True ?e)] else []) @
         run working_directory (fst (emit working_directory True ?e)) ?post"
    using run_after_bare [OF I_bare, of working_directory ?pre ?e ?post] dec by simp
  have rel: "os_path_join working_directory ?e \<in> set (run working_directory False fs)"
    if "\<not> startswith ?e ''/''" "\<not> attached_path_flag ?e"
  proof -
    have "snd (emit working_directory True ?e) = os_path_join working_directory ?e"
      by (rule emit_expected [OF that(2) that(1)])
    then show ?thesis using join_nonempty [OF wd, of ?e] by (subst r) simp
  qed
  have ab: "?e \<in> set (run working_directory False fs)" if "startswith ?e ''/''"
  proof -
    have "?e \<noteq> []" using that by (auto simp: startswith_slash)
    then show ?thesis using emit_expected_abs [OF that, of working_directory] by (subst r) simp
  qed
  show ?thesis using rel ab by (simp add: MakeRel_run [OF wd])
qed

text \<open>
  The script's own \<^verbatim>\<open>flags\<close> have both cases: \<^verbatim>\<open>'-I', '.'\<close> at index 3 and
  \<^verbatim>\<open>'-I', '/usr/include/eigen3'\<close> at index 5.
\<close>

theorem paths_after_I_witness:
  "''/proj'' \<noteq> [] \<and> Suc 3 < length flags \<and> flags ! 3 = ''-I'' \<and>
   \<not> startswith (flags ! Suc 3) ''/'' \<and> \<not> attached_path_flag (flags ! Suc 3) \<and>
   ''/proj/.'' \<in> set (MakeRelativePathsInFlagsAbsolute flags ''/proj'') \<and>
   Suc 5 < length flags \<and> flags ! 5 = ''-I'' \<and> startswith (flags ! Suc 5) ''/'' \<and>
   ''/usr/include/eigen3'' \<in> set (MakeRelativePathsInFlagsAbsolute flags ''/proj'')"
proof -
  have w: "''/proj'' \<noteq> []" by simp
  have i1: "Suc 3 < length flags" and b1: "flags ! 3 = ''-I''" and e1: "flags ! Suc 3 = ''.''"
    and i2: "Suc 5 < length flags" and b2: "flags ! 5 = ''-I''"
    and e2: "flags ! Suc 5 = ''/usr/include/eigen3''"
    by (simp_all add: flags_def)
  have r1: "\<not> startswith ''.'' ''/''" by (simp add: startswith_def)
  have a1: "\<not> attached_path_flag ''.''"
    by (simp add: attached_path_flag_def path_flags_def startswith_def)
  have j1: "os_path_join ''/proj'' ''.'' = ''/proj/.''"
    by (simp add: os_path_join_def startswith_def endswith_def)
  have r2: "startswith ''/usr/include/eigen3'' ''/''" by (simp add: startswith_def)
  have c1: "''/proj/.'' \<in> set (MakeRelativePathsInFlagsAbsolute flags ''/proj'')"
    using paths_after_I [OF w i1 b1] r1 a1 j1 unfolding e1 by simp
  have c2: "''/usr/include/eigen3'' \<in> set (MakeRelativePathsInFlagsAbsolute flags ''/proj'')"
    using paths_after_I [OF w i2 b2] r2 unfolding e2 by simp
  show ?thesis using w i1 b1 r1 a1 c1 i2 b2 r2 c2 unfolding e1 e2 by simp
qed

text \<open>
  C6. For every non-empty working directory and every relative path \<open>p\<close> (a non-empty
  string that does not start with \<^verbatim>\<open>/\<close>), the entry \<^verbatim>\<open>'--sysroot=' + p\<close>, wherever it
  stands in the list, becomes the one entry \<^verbatim>\<open>'--sysroot='\<close> followed by the join of
  the working directory and \<open>p\<close>: the result is the result for the entries before it,
  that single entry, and the result for the entries after it.
\<close>

theorem sysroot_attached_rewritten:
  assumes wd: "working_directory \<noteq> []"
    and p: "p \<noteq> []" "\<not> startswith p ''/''"
  shows "MakeRelativePathsInFlagsAbsolute (pre @ (''--sysroot='' @ p) # post) working_directory =
         MakeRelativePathsInFlagsAbsolute pre working_directory @
         [''--sysroot='' @ os_path_join working_directory p] @
         MakeRelativePathsInFlagsAbsolute post working_directory"
  using emit_attached [OF sysroot_bare p(1)]
  by (simp add: MakeRel_run [OF wd] run_append)

theorem sysroot_attached_rewritten_witness:
  "''/proj'' \<noteq> [] \<and> ''sys'' \<noteq> [] \<and> \<not> startswith ''sys'' ''/'' \<and>
   MakeRelativePathsInFlagsAbsolute [''-I'', ''include'', ''--sysroot=sys''] ''/proj''
     = [''-I'', ''/proj/include'', ''--sysroot=/proj/sys'']"
proof -
  have w: "''/proj'' \<noteq> []" and p: "''sys'' \<noteq> []" by simp_all
  have r: "\<not> startswith ''sys'' ''/''" by (simp add: startswith_def)
  have j: "os_path_join ''/proj'' ''sys'' = ''/proj/sys''"
    by (simp add: os_path_join_def startswith_def endswith_def)
  have pre: "MakeRelativePathsInFlagsAbsolute [''-I'', ''include''] ''/proj''
               = [''-I'', ''/proj/include'']"
    by (simp add: path_flags_def startswith_def os_path_join_def endswith_def
        MakeRelativePathsInFlagsAbsolute_def flag_step_def absolutize_expected_def)
  have post: "MakeRelativePathsInFlagsAbsolute [] ''/proj'' = []"
    by (simp add: MakeRelativePathsInFlagsAbsolute_def)
  show ?thesis
    using sysroot_attached_rewritten [OF w p r, of "[''-I'', ''include'']" "[]"] w r
    by (simp add: pre post j)
qed

text \<open>
  C7. The working directory of the function is an absolute path or empty: the only call
  passes \<^verbatim>\<open>os.path.dirname(os.path.abspath(__file__))\<close>. For every such working
  directory, empty or starting with \<^verbatim>\<open>/\<close>, \<^verbatim>\<open>MakeRelativePathsInFlagsAbsolute\<close> is
  idempotent: applied to its own output it yields the same list again.
\<close>

theorem MakeRelativePathsInFlagsAbsolute_idempotent:
  assumes "working_directory = [] \<or> startswith working_directory ''/''"
  shows "MakeRelativePathsInFlagsAbsolute
           (MakeRelativePathsInFlagsAbsolute fs working_directory) working_directory
         = MakeRelativePathsInFlagsAbsolute fs working_directory"
proof (cases "working_directory = []")
  case True
  then show ?thesis by (simp add: MakeRelativePathsInFlagsAbsolute_def)
next
  case False
  with assms have a: "startswith working_directory ''/''" by simp
  show ?thesis using run_idem [OF a, of False False fs] False by (simp add: MakeRel_run)
qed

theorem MakeRelativePathsInFlagsAbsolute_idempotent_witness:
  "(''/proj'' = [] \<or> startswith ''/proj'' ''/'') \<and>
   MakeRelativePathsInFlagsAbsolute [''-I'', ''-I'', ''foo'', '''', ''--sysroot=sys''] ''/proj''
     = [''-I'', ''/proj/-I'', ''/proj/foo'', ''--sysroot=/proj/sys''] \<and>
   MakeRelativePathsInFlagsAbsolute
     [''-I'', ''/proj/-I'', ''/proj/foo'', ''--sysroot=/proj/sys''] ''/proj''
     = [''-I'', ''/proj/-I'', ''/proj/foo'', ''--sysroot=/proj/sys'']"
proof -
  have w: "''/proj'' = [] \<or> startswith ''/proj'' ''/''" by (simp add: startswith_def)
  have f: "MakeRelativePathsInFlagsAbsolute
             [''-I'', ''-I'', ''foo'', '''', ''--sysroot=sys''] ''/proj''
           = [''-I'', ''/proj/-I'', ''/proj/foo'', ''--sysroot=/proj/sys'']"
    by (simp add: path_flags_def startswith_def os_path_join_def endswith_def
        MakeRelativePathsInFlagsAbsolute_def flag_step_def absolutize_expected_def)
  show ?thesis
    using MakeRelativePathsInFlagsAbsolute_idempotent
            [OF w, of "[''-I'', ''-I'', ''foo'', '''', ''--sysroot=sys'']"] w
    unfolding f by simp
qed

text \<open>
  The function itself only tests the working directory for emptiness. With a relative
  one, which its caller never passes, a second pass joins once more.
\<close>

lemma relative_working_directory_joined_twice:
  "MakeRelativePathsInFlagsAbsolute [''-I'', ''foo''] ''proj'' = [''-I'', ''proj/foo''] \<and>
   MakeRelativePathsInFlagsAbsolute [''-I'', ''proj/foo''] ''proj'' = [''-I'', ''proj/proj/foo'']"
  by (simp add: path_flags_def startswith_def os_path_join_def endswith_def
      MakeRelativePathsInFlagsAbsolute_def flag_step_def absolutize_expected_def)

section \<open>Properties of \<^verbatim>\<open>LoadSystemIncludes\<close> and \<^verbatim>\<open>FlagsForFile\<close>\<close>

lemma bound_module:
  "name_bound module_globals ''re''" "name_bound module_globals ''os''"
  "name_bound module_globals ''__file__''" "name_bound module_globals ''flags''"
  "name_bound module_globals ''DirectoryOfThisScript''"
  "name_bound module_globals ''MakeRelativePathsInFlagsAbsolute''"
  "name_bound module_globals ''LoadSystemIncludes''"
  by (simp_all add: name_bound_def module_globals_def)

lemma unbound_subprocess: "\<not> name_bound module_globals ''subprocess''"
  by (simp add: name_bound_def module_globals_def builtins_used_def)

lemma bound_Cons: "name_bound g n \<Longrightarrow> name_bound (x # g) n"
  by (simp add: name_bound_def)

lemma bound_patched:
  "name_bound patched_globals ''re''" "name_bound patched_globals ''subprocess''"
  unfolding patched_globals_def
  by (simp_all add: bound_Cons bound_module) (simp add: name_bound_def)

text \<open>The loop keeps, in order, the stripped lines that are non-empty and not framework lines.\<close>

lemma includes_loop_filter:
  "includes_loop ps incs =
     incs @ concat (map (\<lambda>p. [''-isystem'', p])
        (filter (\<lambda>p. length p > 0 \<and> str_find p ''(framework directory)'' < 0) (map strip ps)))"
  by (induction ps arbitrary: incs) (simp_all add: Let_def)

text \<open>Without the text \<^verbatim>\<open>End of search list\<close> in the output the pattern has no match.\<close>

lemma str_find_ge: "- 1 \<le> str_find s sub"
  by (induction s) (simp_all add: Let_def)

lemma str_find_Cons: "0 \<le> str_find s sub \<Longrightarrow> 0 \<le> str_find (c # s) sub"
  by (simp add: Let_def)

lemma str_find_drop: "0 \<le> str_find (drop n s) sub \<Longrightarrow> 0 \<le> str_find s sub"
proof (induction s arbitrary: n)
  case Nil
  then show ?case by simp
next
  case (Cons c s)
  show ?case
  proof (cases n)
    case 0
    with Cons.prems show ?thesis by simp
  next
    case (Suc k)
    with Cons.prems have "0 \<le> str_find (drop k s) sub" by simp
    then have "0 \<le> str_find s sub" by (rule Cons.IH)
    then show ?thesis by (rule str_find_Cons)
  qed
qed

lemma lazy_until_found: "lazy_until marker s = Some t \<Longrightarrow> 0 \<le> str_find s marker"
proof (induction s arbitrary: t)
  case Nil
  then show ?case by (simp split: if_splits)
next
  case (Cons c s)
  show ?case
  proof (cases "startswith (c # s) marker")
    case True
    then show ?thesis by simp
  next
    case False
    with Cons.prems obtain t' where "lazy_until marker s = Some t'" by auto
    then have "0 \<le> str_find s marker" by (rule Cons.IH)
    then show ?thesis by (rule str_find_Cons)
  qed
qed

lemma match_here_found: "match_here s = Some t \<Longrightarrow> 0 \<le> str_find s end_marker"
  by (auto simp: match_here_def match_header_def split: option.splits if_splits
      dest!: lazy_until_found intro: str_find_drop)

lemma re_search_found: "re_search s = Some t \<Longrightarrow> 0 \<le> str_find s end_marker"
proof (induction s)
  case Nil
  then have "match_here [] = Some t" by simp
  then show ?case by (rule match_here_found)
next
  case (Cons c s)
  show ?case
  proof (cases "match_here (c # s)")
    case None
    with Cons.prems have "re_search s = Some t" by simp
    then have "0 \<le> str_find s end_marker" by (rule Cons.IH)
    then show ?thesis by (rule str_find_Cons)
  next
    case (Some l)
    then show ?thesis by (rule match_here_found)
  qed
qed

lemma no_end_marker_no_match: "str_find s end_marker < 0 \<Longrightarrow> re_search s = None"
  using re_search_found [of s] by (cases "re_search s") auto

text \<open>
  C1. In the script's own namespace (only \<^verbatim>\<open>os\<close>, \<^verbatim>\<open>re\<close> and \<^verbatim>\<open>ycm_core\<close> are
  imported), every call of \<^verbatim>\<open>LoadSystemIncludes\<close> raises the \<^verbatim>\<open>NameError\<close> for
  \<^verbatim>\<open>subprocess\<close> and no process has been started; every call of \<^verbatim>\<open>FlagsForFile\<close>,
  which calls it unconditionally, fails with the same error and returns no result.
\<close>

theorem LoadSystemIncludes_always_NameError:
  "LoadSystemIncludes module_globals w = (Inl (NameError ''subprocess''), []) \<and>
   FlagsForFile module_globals w filename kwargs = (Inl (NameError ''subprocess''), [])"
proof -
  have l: "LoadSystemIncludes module_globals w = (Inl (NameError ''subprocess''), [])"
    by (simp add: LoadSystemIncludes_def bound_module unbound_subprocess)
  have d: "DirectoryOfThisScript module_globals w = Inr (script_directory w)"
    by (simp add: DirectoryOfThisScript_def bound_module)
  show ?thesis by (simp add: l d FlagsForFile_def bound_module)
qed

text \<open>
  C4, as stated, at a concrete input: on a machine where the compiler cannot be launched
  (errno 2), the call fails with a \<^verbatim>\<open>NameError\<close>, whose class is not
  \<^verbatim>\<open>ToolInvocationError\<close>.
\<close>

theorem launch_failure_not_ToolInvocationError:
  "run_process clang_missing clang_command = LaunchFailure 2 \<and>
   fst (LoadSystemIncludes module_globals clang_missing) = Inl (NameError ''subprocess'') \<and>
   exn_class (NameError ''subprocess'') \<noteq> ''ToolInvocationError''"
  by (simp add: LoadSystemIncludes_def bound_module unbound_subprocess clang_missing_def)

text \<open>
  C4, amended. Whenever the compiler cannot be launched (it fails to start or is not
  found), or the pattern has no match in the compiler's output (in particular when
  \<^verbatim>\<open>End of search list\<close> is absent from it), the call of \<^verbatim>\<open>LoadSystemIncludes\<close>
  fails, in every namespace, with a built-in exception that leaves the function
  unhandled and is no \<^verbatim>\<open>ToolInvocationError\<close>. When the call gets as far as launching
  the compiler (the names \<^verbatim>\<open>re\<close> and \<^verbatim>\<open>subprocess\<close> resolve), that exception is
  the \<^verbatim>\<open>OSError\<close> of \<^verbatim>\<open>Popen\<close> with its errno for a launch failure, and the
  \<^verbatim>\<open>AttributeError\<close> of \<^verbatim>\<open>None.group\<close> for output without a match.
\<close>

theorem LoadSystemIncludes_fails_unhandled:
  "(run_process w clang_command = LaunchFailure errno \<longrightarrow>
      (\<exists>e. fst (LoadSystemIncludes g w) = Inl e \<and> exn_class e \<noteq> ''ToolInvocationError'') \<and>
      (name_bound g ''re'' \<and> name_bound g ''subprocess'' \<longrightarrow>
         LoadSystemIncludes g w = (Inl (OSError errno), [clang_command]))) \<and>
   (run_process w clang_command = Completed process_out process_err \<and>
    (str_find (process_out @ process_err) end_marker < 0 \<or>
     re_search (process_out @ process_err) = None) \<longrightarrow>
      (\<exists>e. fst (LoadSystemIncludes g w) = Inl e \<and> exn_class e \<noteq> ''ToolInvocationError'') \<and>
      (name_bound g ''re'' \<and> name_bound g ''subprocess'' \<longrightarrow>
         LoadSystemIncludes g w = (Inl (AttributeError ''group''), [clang_command])))"
proof (intro conjI impI)
  assume "run_process w clang_command = LaunchFailure errno"
  then show "\<exists>e. fst (LoadSystemIncludes g w) = Inl e \<and> exn_class e \<noteq> ''ToolInvocationError''"
    by (simp add: LoadSystemIncludes_def)
next
  assume "run_process w clang_command = LaunchFailure errno"
    and "name_bound g ''re'' \<and> name_bound g ''subprocess''"
  then show "LoadSystemIncludes g w = (Inl (OSError errno), [clang_command])"
    by (simp add: LoadSystemIncludes_def)
next
  assume a: "run_process w clang_command = Completed process_out process_err \<and>
    (str_find (process_out @ process_err) end_marker < 0 \<or>
     re_search (process_out @ process_err) = None)"
  then have "re_search (process_out @ process_err) = None"
    using no_end_marker_no_match by blast
  with a show "\<exists>e. fst (LoadSystemIncludes g w) = Inl e \<and> exn_class e \<noteq> ''ToolInvocationError''"
    by (simp add: LoadSystemIncludes_def)
next
  assume a: "run_process w clang_command = Completed process_out process_err \<and>
    (str_find (process_out @ process_err) end_marker < 0 \<or>
     re_search (process_out @ process_err) = None)"
    and b: "name_bound g ''re'' \<and> name_bound g ''subprocess''"
  from a have "re_search (process_out @ process_err) = None"
    using no_end_marker_no_match by blast
  with a b show "LoadSystemIncludes g w = (Inl (AttributeError ''group''), [clang_command])"
    by (simp add: LoadSystemIncludes_def)
qed

theorem LoadSystemIncludes_fails_unhandled_witness:
  "run_process clang_missing clang_command = LaunchFailure 2 \<and>
   isl (fst (LoadSystemIncludes module_globals clang_missing)) \<and>
   name_bound patched_globals ''re'' \<and> name_bound patched_globals ''subprocess'' \<and>
   LoadSystemIncludes patched_globals clang_missing = (Inl (OSError 2), [clang_command]) \<and>
   run_process no_markers_world clang_command
     = Completed [] ''clang: error: unsupported option'' \<and>
   str_find ([] @ ''clang: error: unsupported option'') end_marker < 0 \<and>
   isl (fst (LoadSystemIncludes module_globals no_markers_world)) \<and>
   LoadSystemIncludes patched_globals no_markers_world
     = (Inl (AttributeError ''group''), [clang_command])"
proof -
  have l: "run_process clang_missing clang_command = LaunchFailure 2"
    by (simp add: clang_missing_def)
  have c: "run_process no_markers_world clang_command
             = Completed [] ''clang: error: unsupported option''"
    by (simp add: no_markers_world_def)
  have n: "str_find ([] @ ''clang: error: unsupported option'') end_marker < 0"
    unfolding end_marker_def by code_simp
  have i1: "isl (fst (LoadSystemIncludes module_globals clang_missing))"
    using LoadSystemIncludes_fails_unhandled
            [of clang_missing 2 module_globals "[]" "[]"] l by auto
  have i2: "isl (fst (LoadSystemIncludes module_globals no_markers_world))"
    using LoadSystemIncludes_fails_unhandled
            [of no_markers_world 0 module_globals "[]" "''clang: error: unsupported option''"] c n
    by auto
  have o: "LoadSystemIncludes patched_globals clang_missing = (Inl (OSError 2), [clang_command])"
    using LoadSystemIncludes_fails_unhandled
            [of clang_missing 2 patched_globals "[]" "[]"] l bound_patched by simp
  have a: "LoadSystemIncludes patched_globals no_markers_world
             = (Inl (AttributeError ''group''), [clang_command])"
    using LoadSystemIncludes_fails_unhandled
            [of no_markers_world 0 patched_globals "[]" "''clang: error: unsupported option''"]
          c n bound_patched
    by simp
  show ?thesis using l c n i1 i2 o a bound_patched by simp
qed

text \<open>
  The scraping itself, reached in a namespace that has \<^verbatim>\<open>subprocess\<close>: one framework
  line and two regular lines between the markers give two \<^verbatim>\<open>-isystem\<close> pairs.
\<close>

lemma mock_search:
  "re_search mock_output =
     Some ''\<newline> /usr/include/c++/v1\<newline> /System/Library/Frameworks (framework directory)\<newline> /usr/include\<newline>''"
  unfolding mock_output_def by code_simp

lemma mock_scrape:
  "LoadSystemIncludes patched_globals mock_world =
     (Inr [''-isystem'', ''/usr/include/c++/v1'', ''-isystem'', ''/usr/include''], [clang_command])"
proof -
  have "includes_loop (split_newline ''\<newline> /usr/include/c++/v1\<newline> /System/Library/Frameworks (framework directory)\<newline> /usr/include\<newline>'') []
     = [''-isystem'', ''/usr/include/c++/v1'', ''-isystem'', ''/usr/include'']"
    by code_simp
  then show ?thesis
    by (simp add: LoadSystemIncludes_def bound_patched mock_world_def mock_search)
qed

text \<open>
  C9, on the script as it is: with a compiler whose output has both markers, one
  framework line and two regular lines, \<^verbatim>\<open>LoadSystemIncludes\<close> returns no pairs. It
  raises the \<^verbatim>\<open>NameError\<close> for \<^verbatim>\<open>subprocess\<close> and starts no process.
\<close>

theorem LoadSystemIncludes_mock_NameError:
  "run_process mock_world clang_command = Completed [] mock_output \<and>
   LoadSystemIncludes module_globals mock_world = (Inl (NameError ''subprocess''), []) \<and>
   fst (LoadSystemIncludes module_globals mock_world)
     \<noteq> Inr [''-isystem'', ''/usr/include/c++/v1'', ''-isystem'', ''/usr/include'']"
  by (simp add: LoadSystemIncludes_def bound_module unbound_subprocess mock_world_def)

text \<open>
  C10. The outcome of \<^verbatim>\<open>FlagsForFile\<close> does not depend on the file name (nor on the
  keyword arguments): in the same namespace and environment, any two calls have the same
  outcome, be it the dictionary with the flag list and the cache flag or the error.
\<close>

theorem FlagsForFile_ignores_filename:
  "FlagsForFile g w filename1 kwargs1 = FlagsForFile g w filename2 kwargs2"
  by (simp add: FlagsForFile_def)

text \<open>A dictionary that \<^verbatim>\<open>FlagsForFile\<close> returns has \<^verbatim>\<open>do_cache\<close> set to \<^verbatim>\<open>True\<close>.\<close>

lemma FlagsForFile_do_cache:
  "fst (FlagsForFile g w filename kwargs) = Inr d \<Longrightarrow> map_of d ''do_cache'' = Some (PyBool True)"
  by (auto simp: FlagsForFile_def Let_def split: if_splits sum.splits prod.splits)

end
